theory Spec2Isabelle
  imports Main "HOL-Library.Word" "HOL-Library.Sublist"
begin

section \<open>Topology model: the configuration package\<close>

text \<open>
  The structs of package \<open>configuration\<close>. The sources show them at two revisions: the
  declarations next to \<open>Validate\<close> (a service has \<open>Name\<close>, an instance has \<open>Port\<close> and
  \<open>Instance\<close>, an extension has \<open>Name\<close> and \<open>Port\<close>) and the uses in the proxy service (a
  service literal sets \<open>Url\<close>, an instance literal sets \<open>Name\<close>, an extension is read at
  \<open>Url\<close>). Each record carries the fields of both; a Go struct literal leaves the fields
  it does not mention at their zero value (the empty string, 0, the nil slice).
  Field names are prefixed by the record they belong to: \<open>c_Name\<close> is \<open>Controller.Name\<close>.
  An \<open>error\<close> is the message that \<open>err.Error()\<close> returns.
\<close>

type_synonym error = string

record ControllerInstance =
  ci_Name :: string
  ci_Instance :: string
  ci_Port :: "64 word"

record Controller =
  c_Type :: string
  c_Name :: string
  c_Instances :: "ControllerInstance list"

record ProxyConfig =
  pc_Name :: string
  pc_Port :: "64 word"

record Extension =
  e_Name :: string
  e_Url :: string
  e_Port :: "64 word"

record Service =
  s_Type :: string
  s_Name :: string
  s_Url :: string
  s_Instance :: string
  s_Controllers :: "Controller list"
  s_Proxies :: "ProxyConfig list"
  s_Extensions :: "Extension list"
  s_Pipelines :: "string list"

text \<open>The character \<open>'\<close> that the error messages put around a name.\<close>

definition apostrophe :: string where
  "apostrophe = [CHR 0x27]"

subsection \<open>Validate\<close>

text \<open>
  \<open>ValidateServiceType\<close> and \<open>ValidateControllerType\<close> are called by \<open>Validate\<close> and their
  bodies are not in the sources, so they are parameters \<open>vst\<close> and \<open>vct\<close>: a function from
  the type string to \<open>None\<close> (recognized, the Go \<open>nil\<close>) or \<open>Some err\<close>. Each receives
  the type string only.

  The loop over \<open>s.Controllers\<close> returns at the first controller whose type is refused.
  \<open>fmt.Errorf("...: %v", err)\<close> appends the message of \<open>err\<close> to the prefix.
\<close>

fun validate_controllers :: "(string \<Rightarrow> error option) \<Rightarrow> Controller list \<Rightarrow> error option" where
  "validate_controllers vct [] = None"
| "validate_controllers vct (c # cs) =
     (case vct (c_Type c) of
        Some err \<Rightarrow> Some (''controller.ValidateControllerType: '' @ err)
      | None \<Rightarrow> validate_controllers vct cs)"

text \<open>
  \<open>Validate\<close> has a pointer receiver, so it could write to the service: the model returns
  the service as the call leaves it, next to the error.
\<close>

definition Validate ::
  "(string \<Rightarrow> error option) \<Rightarrow> (string \<Rightarrow> error option) \<Rightarrow> Service \<Rightarrow> error option \<times> Service" where
  "Validate vst vct s =
     (case vst (s_Type s) of
        Some err \<Rightarrow> (Some (''identity.ValidateServiceType: '' @ err), s)
      | None \<Rightarrow> (validate_controllers vct (s_Controllers s), s))"

subsection \<open>GetController, GetFirstController, GetExtension\<close>

text \<open>Each lookup is a scan in declaration order that returns at the first match.\<close>

definition GetController :: "Service \<Rightarrow> string \<Rightarrow> error + Controller" where
  "GetController s name =
     (case find (\<lambda>c. c_Name c = name) (s_Controllers s) of
        Some c \<Rightarrow> Inr c
      | None \<Rightarrow>
          Inl (apostrophe @ name @ apostrophe @ '' controller was not found in '' @
               apostrophe @ s_Name s @ apostrophe @ '' service's configuration''))"

definition GetFirstController :: "Service \<Rightarrow> error + Controller" where
  "GetFirstController s =
     (case s_Controllers s of
        [] \<Rightarrow>
          Inl (''service '' @ apostrophe @ s_Name s @ apostrophe @
               '' doesn't have any controllers in yaml file'')
      | controller # _ \<Rightarrow> Inr controller)"

definition GetExtension :: "Service \<Rightarrow> string \<Rightarrow> error + Extension" where
  "GetExtension s name =
     (case find (\<lambda>e. e_Name e = name) (s_Extensions s) of
        Some e \<Rightarrow> Inr e
      | None \<Rightarrow>
          Inl (apostrophe @ name @ apostrophe @ '' extension was not found in '' @
               apostrophe @ s_Name s @ apostrophe @ '' service's configuration''))"

section \<open>Context resolver\<close>

record Context =
  ctx_Type :: string
  ctx_Src :: string
  ctx_Bin :: string
  ctx_Data :: string

definition DevContext :: string where
  "DevContext = ''development''"

definition DefaultContext :: string where
  "DefaultContext = ''default''"

definition Host :: "Context \<Rightarrow> string" where
  "Host ctx = (if ctx_Type ctx = DevContext then ''localhost'' else ''0.0.0.0'')"

section \<open>Proxy orchestrator\<close>

text \<open>
  \<open>configuration.Config\<close> as the proxy uses it: the name of the service, the service
  configuration, and the port allocator behind \<open>GetFreePort\<close>.
\<close>

record Config =
  cfg_Name :: string
  cfg_Service :: Service
  cfg_free_ports :: "int list"

text \<open>
  The source controller is a \<open>controller.Interface\<close> and the destination side is the proxy's
  own \<open>Controller\<close>; their implementations are not in the sources. The model keeps what
  the proxy reads from them (\<open>ControllerType()\<close>, \<open>requiredDestination\<close>) and records the
  arguments of the calls the proxy makes on them, in call order.
\<close>

record SourceController =
  src_ControllerType :: string
  src_AddConfig :: "Controller list"
  src_RequireExtension :: "string list"
  src_AddExtensionConfig :: "Extension list"

record ProxyController =
  requiredDestination :: string
  RegisterDestination :: "Controller list"

record Proxy =
  px_configuration :: Config
  px_source :: "SourceController option"
  px_Controller :: ProxyController

text \<open>
  What the proxy takes from outside its own files: the constants \<open>configuration.ProxyType\<close>
  and \<open>configuration.UnknownType\<close>, the result of \<open>configuration.GetCurrentPath()\<close> (an
  error or the path of the executable) and the extension that \<open>extension()\<close> builds from
  the controller's name.
\<close>

record Env =
  ProxyType :: string
  UnknownType :: string
  GetCurrentPath :: "error + string"
  extension :: Extension

text \<open>
  How a call ends: it returns \<open>nil\<close>, it returns an error, the logger's \<open>Fatal\<close> ends
  the process, or the runtime panics.
\<close>

datatype outcome = Done | Returned error | Fatal string | Panicked string

definition SourceName :: string where
  "SourceName = ''source''"

definition DestinationName :: string where
  "DestinationName = ''destination''"

text \<open>
  Modelled from the spec: \<open>Config.GetFreePort\<close> is called by \<open>prepareConfiguration\<close> and is
  not in the sources. The spec says that a synthesized instance gets "a freshly allocated
  free port". The ports the operating system hands out are an input of the model: the
  list \<open>cfg_free_ports\<close>, one element per call, read as the Go \<open>int\<close> that the call
  returns. A call takes the head of the list; with no port left it cannot return.
\<close>

definition GetFreePort :: "Config \<Rightarrow> (int \<times> Config) option" where
  "GetFreePort config =
     (case cfg_free_ports config of
        [] \<Rightarrow> None
      | port # ports \<Rightarrow> Some (port, config\<lparr>cfg_free_ports := ports\<rparr>))"

text \<open>
  Modelled from the spec: \<open>Service.SetController\<close> is called by \<open>prepareConfiguration\<close> and is
  not in the sources. The spec says that the orchestrator completes the service
  configuration by "appending missing source/destination ControllerConfig, rewriting
  ports", and that lookups by name take the first match in declaration order: the model
  rewrites the first controller of that name in place, and appends the controller when
  no controller has the name.
\<close>

fun set_controller :: "Controller list \<Rightarrow> Controller \<Rightarrow> Controller list" where
  "set_controller [] controller = [controller]"
| "set_controller (c # cs) controller =
     (if c_Name c = c_Name controller then controller # cs
      else c # set_controller cs controller)"

definition SetController :: "Service \<Rightarrow> Controller \<Rightarrow> Service" where
  "SetController s controller = s\<lparr>s_Controllers := set_controller (s_Controllers s) controller\<rparr>"

subsection \<open>prepareConfiguration\<close>

text \<open>
  The service type: an empty type makes a new service configuration from a struct literal
  (type, url and instance; every other field at its zero value); a type that is not the
  proxy type is an error.
\<close>

definition prepare_service :: "Env \<Rightarrow> Config \<Rightarrow> outcome + Service" where
  "prepare_service env config =
     (let serviceConfig = cfg_Service config in
      if length (s_Type serviceConfig) = 0 then
        (case GetCurrentPath env of
           Inl err \<Rightarrow> Inl (Fatal ''failed to get os context'')
         | Inr exePath \<Rightarrow>
             Inr \<lparr>s_Type = ProxyType env, s_Name = [], s_Url = exePath,
                  s_Instance = cfg_Name config @ '' 1'', s_Controllers = [],
                  s_Proxies = [], s_Extensions = [], s_Pipelines = []\<rparr>)
      else if s_Type serviceConfig \<noteq> ProxyType env then
        Inl (Returned (''service type is overwritten. It's not proxy its '' @
                       apostrophe @ s_Type serviceConfig @ apostrophe))
      else Inr serviceConfig)"

text \<open>
  \<open>var sourceConfig configuration.Controller\<close> is the zero controller. The loop over the
  controllers has no \<open>break\<close>: each match overwrites the variable, so the last controller
  of a name stays.
\<close>

definition zero_controller :: Controller where
  "zero_controller = \<lparr>c_Type = [], c_Name = [], c_Instances = []\<rparr>"

fun find_source_destination ::
  "Controller list \<Rightarrow> Controller \<times> Controller \<Rightarrow> Controller \<times> Controller" where
  "find_source_destination [] found = found"
| "find_source_destination (c # cs) (sourceConfig, destinationConfig) =
     find_source_destination cs
       (if c_Name c = SourceName then (c, destinationConfig)
        else if c_Name c = DestinationName then (sourceConfig, c)
        else (sourceConfig, destinationConfig))"

text \<open>
  The controller of one side (\<open>role\<close> is the word the error message starts with): with no
  type it is replaced by a new controller of the expected type, which is appended to the
  controllers; with another type than the expected one it is an error.
\<close>

definition prepare_controller ::
  "string \<Rightarrow> string \<Rightarrow> string \<Rightarrow> Service \<Rightarrow> Controller \<Rightarrow> error + Service \<times> Controller" where
  "prepare_controller role name expected serviceConfig controllerConfig =
     (if length (c_Type controllerConfig) = 0 then
        (let created = \<lparr>c_Type = expected, c_Name = name, c_Instances = []\<rparr>
         in Inr (serviceConfig\<lparr>s_Controllers := s_Controllers serviceConfig @ [created]\<rparr>,
                 created))
      else if c_Type controllerConfig \<noteq> expected then
        Inl (role @ '' expected to be of '' @ expected @
             '' type, but in the config it's '' @ c_Type controllerConfig @ '' of type'')
      else Inr (serviceConfig, controllerConfig))"

text \<open>
  The instances of one side: with no instance, one is made on a port from \<open>GetFreePort\<close>
  (\<open>uint64(port)\<close> is the conversion of the \<open>int\<close>); otherwise the port of the first
  instance must not be 0. Both sides return the same message. The configuration
  comes back as \<open>GetFreePort\<close> left it.
\<close>

definition prepare_instances :: "Config \<Rightarrow> Controller \<Rightarrow> (outcome + Controller) \<times> Config" where
  "prepare_instances config controllerConfig =
     (if length (c_Instances controllerConfig) = 0 then
        (case GetFreePort config of
           None \<Rightarrow> (Inl (Fatal ''no free port''), config)
         | Some (port, config') \<Rightarrow>
             (Inr (controllerConfig\<lparr>c_Instances := c_Instances controllerConfig @
                     [\<lparr>ci_Name = c_Name controllerConfig,
                       ci_Instance = c_Name controllerConfig @ ''1'',
                       ci_Port = word_of_int port\<rparr>]\<rparr>),
              config'))
      else if ci_Port (c_Instances controllerConfig ! 0) = 0 then
        (Inl (Returned ''the port should not be 0 in the source''), config)
      else (Inr controllerConfig, config))"

text \<open>
  \<open>prepareConfiguration\<close> works on local copies (\<open>serviceConfig\<close>, \<open>sourceConfig\<close>,
  \<open>destinationConfig\<close>) and stores the service configuration in the last statement
  before \<open>return nil\<close>; until then the proxy changes through \<open>GetFreePort\<close> only. The
  method reads \<open>service.source\<close> after the check of the service type.
\<close>

definition prepareConfiguration :: "Env \<Rightarrow> Proxy \<Rightarrow> outcome \<times> Proxy" where
  "prepareConfiguration env service =
     (let config = px_configuration service in
      case prepare_service env config of
        Inl failure \<Rightarrow> (failure, service)
      | Inr serviceConfig \<Rightarrow>
     (case px_source service of
        None \<Rightarrow> (Panicked ''nil pointer dereference'', service)
      | Some source \<Rightarrow>
     (case find_source_destination (s_Controllers serviceConfig)
             (zero_controller, zero_controller) of
        (sourceConfig, destinationConfig) \<Rightarrow>
     (case prepare_controller ''source'' SourceName (src_ControllerType source)
             serviceConfig sourceConfig of
        Inl err \<Rightarrow> (Returned err, service)
      | Inr (serviceConfig, sourceConfig) \<Rightarrow>
     (case prepare_controller ''destination'' DestinationName
             (requiredDestination (px_Controller service)) serviceConfig destinationConfig of
        Inl err \<Rightarrow> (Returned err, service)
      | Inr (serviceConfig, destinationConfig) \<Rightarrow>
     (case prepare_instances config sourceConfig of
        (Inl failure, config) \<Rightarrow> (failure, service\<lparr>px_configuration := config\<rparr>)
      | (Inr sourceConfig, config) \<Rightarrow>
     (case prepare_instances config destinationConfig of
        (Inl failure, config) \<Rightarrow> (failure, service\<lparr>px_configuration := config\<rparr>)
      | (Inr destinationConfig, config) \<Rightarrow>
          (Done,
           service\<lparr>px_configuration := config\<lparr>cfg_Service :=
             SetController (SetController serviceConfig sourceConfig) destinationConfig\<rparr>\<rparr>))))))))"

subsection \<open>Prepare\<close>

text \<open>
  \<open>registerDestination\<close> and \<open>registerSource\<close> pass the first controller of the name
  (the loop breaks at the first match) to the destination side and to the source.
\<close>

definition registerDestination :: "Proxy \<Rightarrow> Proxy" where
  "registerDestination service =
     (case find (\<lambda>c. c_Name c = DestinationName)
             (s_Controllers (cfg_Service (px_configuration service))) of
        None \<Rightarrow> service
      | Some c \<Rightarrow>
          service\<lparr>px_Controller := (px_Controller service)
            \<lparr>RegisterDestination := RegisterDestination (px_Controller service) @ [c]\<rparr>\<rparr>)"

definition registerSource :: "Proxy \<Rightarrow> Proxy" where
  "registerSource service =
     (case find (\<lambda>c. c_Name c = SourceName)
             (s_Controllers (cfg_Service (px_configuration service))) of
        None \<Rightarrow> service
      | Some c \<Rightarrow>
          service\<lparr>px_source :=
            map_option (\<lambda>source. source\<lparr>src_AddConfig := src_AddConfig source @ [c]\<rparr>)
              (px_source service)\<rparr>)"

definition Prepare :: "Env \<Rightarrow> Proxy \<Rightarrow> outcome \<times> Proxy" where
  "Prepare env service =
     (if px_source service = None then
        (Returned ''missing source. call service.SetDefaultSource'', service)
      else if requiredDestination (px_Controller service) = UnknownType env then
        (Returned
           ''missing the required destination. call service.Controller.RequireDestination'',
         service)
      else
        (case prepareConfiguration env service of
           (Returned err, service) \<Rightarrow> (Returned (''prepareConfiguration: '' @ err), service)
         | (Done, service) \<Rightarrow>
             (let service = registerSource (registerDestination service);
                  proxyExtension = extension env
              in (Done,
                  service\<lparr>px_source :=
                    map_option
                      (\<lambda>source. source
                         \<lparr>src_RequireExtension := src_RequireExtension source @ [e_Url proxyExtension],
                          src_AddExtensionConfig := src_AddExtensionConfig source @ [proxyExtension]\<rparr>)
                      (px_source service)\<rparr>))
         | (failure, service) \<Rightarrow> (failure, service)))"

section \<open>Producer loop: categorize\<close>

text \<open>
  \<open>Manager.categorize\<close> runs one loop per smartcontract. The model keeps the fields of the
  smartcontract that the loop reads; block numbers and timestamps are natural numbers
  (the loop passes them on and does no arithmetic on them).
\<close>

record Smartcontract =
  sm_NetworkId :: string
  sm_Address :: string
  sm_CategorizedBlockTimestamp :: nat

text \<open>
  The request that is pushed: \<open>message.Request\<close> with its map of parameters, written as
  the list of the two entries of the map literal. \<open>'l\<close> is the type of the logs that the
  upstream returns.
\<close>

datatype 'l parameter = Smartcontracts "Smartcontract list" | Logs 'l

record 'l Request =
  Command :: string
  Parameters :: "(string \<times> 'l parameter) list"

text \<open>
  The functions that the loop calls and that are not in the sources, as parameters:
  \<open>spaghetti_log.RecentBlock\<close>, \<open>Smartcontract.SetBlockParameter\<close> (which writes through the
  pointer: the model returns the smartcontract) and \<open>Request.ToString\<close>, whose error the
  loop drops.
\<close>

record 'l Collaborators =
  RecentBlock :: "'l \<Rightarrow> nat \<times> nat"
  SetBlockParameter :: "Smartcontract \<Rightarrow> nat \<Rightarrow> nat \<Rightarrow> Smartcontract"
  ToString :: "'l Request \<Rightarrow> string"

text \<open>
  The loop has no exit of its own. What one iteration meets outside is a \<open>round\<close>: the
  fetch \<open>RemoteLogFilter\<close> fails with an error, or it returns logs and \<open>SendMessage\<close> then
  returns \<open>nil\<close> or an error. \<open>categorize\<close> runs the loop against a list of rounds and
  returns the events of the run in order, and where the run stands after the last round:
  \<open>Polling\<close> (back at the fetch, with the smartcontract as the iterations left it) or
  \<open>Crashed\<close> (the loop called \<open>panic\<close>). \<open>Sleep\<close> counts seconds.
\<close>

datatype 'l round = FetchFails error | Fetched 'l "error option"

datatype event =
    RemoteLogFilter nat "string list"
  | Println string
  | Fprintf_Stderr string
  | Sleep nat
  | Lock
  | SendMessage string
  | Unlock
  | Panic error

datatype progress = Polling Smartcontract | Crashed error

text \<open>The branch \<open>err != nil\<close> of the fetch: three lines of output, ten seconds of sleep.\<close>

definition fetch_failed :: "Smartcontract \<Rightarrow> error \<Rightarrow> event list" where
  "fetch_failed sm err =
     [RemoteLogFilter (sm_CategorizedBlockTimestamp sm) [sm_Address sm],
      Println (''failed to get the remote block number for network: '' @ sm_NetworkId sm @
               '' error: '' @ err),
      Fprintf_Stderr (''Error when imx client for logs'' @ [CHR 0x60] @ '': '' @ err @ [CHR 0x0A]),
      Println ''trying to request again in 10 seconds...'',
      Sleep 10]"

text \<open>
  After a fetch: the block parameters of the smartcontract are set from the logs and
  the request is built and serialized.
\<close>

definition push_request :: "'l Collaborators \<Rightarrow> Smartcontract \<Rightarrow> 'l \<Rightarrow> Smartcontract \<times> string" where
  "push_request deps sm new_logs =
     (case RecentBlock deps new_logs of
        (block_number, block_timestamp) \<Rightarrow>
          (let sm' = SetBlockParameter deps sm block_number block_timestamp;
               push = \<lparr>Command = [],
                       Parameters = [(''smartcontracts'', Smartcontracts [sm']),
                                     (''logs'', Logs new_logs)]\<rparr>
           in (sm', ToString deps push)))"

fun categorize ::
  "'l Collaborators \<Rightarrow> Smartcontract \<Rightarrow> 'l round list \<Rightarrow> event list \<times> progress" where
  "categorize deps sm [] = ([], Polling sm)"
| "categorize deps sm (FetchFails err # rounds) =
     (case categorize deps sm rounds of
        (events, progress) \<Rightarrow> (fetch_failed sm err @ events, progress))"
| "categorize deps sm (Fetched new_logs sent # rounds) =
     (case push_request deps sm new_logs of
        (sm', request_string) \<Rightarrow>
          (case sent of
             Some err \<Rightarrow>
               ([RemoteLogFilter (sm_CategorizedBlockTimestamp sm) [sm_Address sm],
                 Lock, SendMessage request_string, Unlock, Panic err],
                Crashed err)
           | None \<Rightarrow>
               (case categorize deps sm' rounds of
                  (events, progress) \<Rightarrow>
                    ([RemoteLogFilter (sm_CategorizedBlockTimestamp sm) [sm_Address sm],
                      Lock, SendMessage request_string, Unlock, Sleep 1] @ events,
                     progress))))"

text \<open>Kinds of events, for counting them in a run.\<close>

fun is_fetch :: "event \<Rightarrow> bool" where
  "is_fetch (RemoteLogFilter _ _) = True"
| "is_fetch _ = False"

fun is_send :: "event \<Rightarrow> bool" where
  "is_send (SendMessage _) = True"
| "is_send _ = False"

fun is_panic :: "event \<Rightarrow> bool" where
  "is_panic (Panic _) = True"
| "is_panic _ = False"


section \<open>Producer loops running side by side\<close>

text \<open>
  Several goroutines run \<open>categorize\<close> at once, one per smartcontract, and all send on
  \<open>manager.pusher\<close>. The mutex \<open>mu\<close> is a local variable of \<open>categorize\<close>, declared in its
  first statement: every goroutine has a mutex of its own, which the model keeps in the
  state of the goroutine (\<open>g_mu\<close>: locked or not). A goroutine stands at a point of the
  loop body: the fetch, \<open>mu.Lock()\<close>, the call of \<open>SendMessage\<close>, inside \<open>SendMessage\<close>,
  \<open>mu.Unlock()\<close>, the sleep of one second, or it is dead after \<open>panic\<close>.
\<close>

datatype point = AtFetch | AtLock | AtSend | InSend | AtUnlock | AtSleep | Dead

record goroutine =
  g_point :: point
  g_mu :: bool

text \<open>
  A move of one goroutine: the fetch fails (the goroutine sleeps and stays at the fetch),
  the fetch returns logs, the goroutine takes its next step, or \<open>SendMessage\<close> returns
  an error. \<open>mu.Lock()\<close> waits while the goroutine's mutex is held.
\<close>

datatype move = FetchError | FetchOk | Go | SendError

definition advance :: "goroutine \<Rightarrow> move \<Rightarrow> goroutine option" where
  "advance g m =
     (case (g_point g, m) of
        (AtFetch, FetchError) \<Rightarrow> Some g
      | (AtFetch, FetchOk) \<Rightarrow> Some (g\<lparr>g_point := AtLock\<rparr>)
      | (AtLock, Go) \<Rightarrow> if g_mu g then None else Some (g\<lparr>g_point := AtSend, g_mu := True\<rparr>)
      | (AtSend, Go) \<Rightarrow> Some (g\<lparr>g_point := InSend\<rparr>)
      | (InSend, Go) \<Rightarrow> Some (g\<lparr>g_point := AtUnlock\<rparr>)
      | (InSend, SendError) \<Rightarrow> Some (g\<lparr>g_point := Dead\<rparr>)
      | (AtUnlock, Go) \<Rightarrow> Some (g\<lparr>g_point := AtSleep, g_mu := False\<rparr>)
      | (AtSleep, Go) \<Rightarrow> Some (g\<lparr>g_point := AtFetch\<rparr>)
      | _ \<Rightarrow> None)"

text \<open>
  A schedule is a list of pairs of a goroutine's index and its move; \<open>run\<close> is the
  interleaving it describes, or \<open>None\<close> when a goroutine cannot make its move.
  \<open>senders\<close> counts the goroutines that are inside \<open>SendMessage\<close> on the shared socket.
\<close>

definition step :: "goroutine list \<Rightarrow> nat \<times> move \<Rightarrow> goroutine list option" where
  "step gs im =
     (case im of
        (i, m) \<Rightarrow>
          if i < length gs then
            (case advance (gs ! i) m of
               None \<Rightarrow> None
             | Some g \<Rightarrow> Some (gs[i := g]))
          else None)"

fun run :: "goroutine list \<Rightarrow> (nat \<times> move) list \<Rightarrow> goroutine list option" where
  "run gs [] = Some gs"
| "run gs (im # schedule) =
     (case step gs im of
        None \<Rightarrow> None
      | Some gs' \<Rightarrow> run gs' schedule)"

definition start :: "nat \<Rightarrow> goroutine list" where
  "start n = replicate n \<lparr>g_point = AtFetch, g_mu = False\<rparr>"

definition senders :: "goroutine list \<Rightarrow> nat" where
  "senders gs = length (filter (\<lambda>g. g_point g = InSend) gs)"


section \<open>Example configurations\<close>

text \<open>
  Concrete values on which the theorems below are evaluated: an environment, a proxy
  with a source of type "Replier" attached and "Replier" required of the destination,
  and a service that declares a proxy, an extension and a pipeline next to the given
  type and controllers.
\<close>

definition example_env :: Env where
  "example_env =
     \<lparr>ProxyType = ''Proxy'', UnknownType = [], GetCurrentPath = Inr ''/opt/web'',
      extension = \<lparr>e_Name = ''proxy'', e_Url = ''proxy-lib'', e_Port = 0\<rparr>\<rparr>"

definition example_proxy :: "Service \<Rightarrow> int list \<Rightarrow> Proxy" where
  "example_proxy s ports =
     \<lparr>px_configuration = \<lparr>cfg_Name = ''web'', cfg_Service = s, cfg_free_ports = ports\<rparr>,
      px_source = Some \<lparr>src_ControllerType = ''Replier'', src_AddConfig = [],
                        src_RequireExtension = [], src_AddExtensionConfig = []\<rparr>,
      px_Controller = \<lparr>requiredDestination = ''Replier'', RegisterDestination = []\<rparr>\<rparr>"

definition example_service :: "string \<Rightarrow> Controller list \<Rightarrow> Service" where
  "example_service t cs =
     \<lparr>s_Type = t, s_Name = ''web'', s_Url = ''web.example'', s_Instance = ''web 7'',
      s_Controllers = cs, s_Proxies = [\<lparr>pc_Name = ''auth'', pc_Port = 4100\<rparr>],
      s_Extensions = [\<lparr>e_Name = ''db'', e_Url = [], e_Port = 4010\<rparr>],
      s_Pipelines = [''auth->source'']\<rparr>"

section \<open>Properties of the topology model and of the context resolver\<close>

lemma sublist_mid: "sublist x (a @ x @ b)"
  unfolding sublist_def by blast

lemma sublist_between: "ys = ps @ x @ ss \<Longrightarrow> sublist x ys"
  unfolding sublist_def by blast

lemma find_absent: "name \<notin> f ` set xs \<Longrightarrow> find (\<lambda>c. f c = name) xs = None"
  by (induction xs) auto

text \<open>
  C9. \<open>Host\<close> is a function of the type of the execution context alone: two contexts of
  the same type get the same host, whatever their paths. The type "development" gives
  the loopback name \<open>localhost\<close> and the type "default" gives the all-interfaces address
  \<open>0.0.0.0\<close>. The function returns a string and nothing else: it has no state to write.
\<close>

theorem Host_function_of_type:
  "(ctx_Type a = ctx_Type b \<longrightarrow> Host a = Host b) \<and>
   (ctx_Type c = ''development'' \<longrightarrow> Host c = ''localhost'') \<and>
   (ctx_Type d = ''default'' \<longrightarrow> Host d = ''0.0.0.0'')"
  by (simp add: Host_def DevContext_def)

theorem Host_function_of_type_witness:
  "Host \<lparr>ctx_Type = ''default'', ctx_Src = ''/a/deps/.src'', ctx_Bin = ''/a/deps/.bin'',
          ctx_Data = ''/a/deps/.data''\<rparr> =
     Host \<lparr>ctx_Type = ''default'', ctx_Src = [], ctx_Bin = [], ctx_Data = []\<rparr> \<and>
   Host \<lparr>ctx_Type = ''development'', ctx_Src = ''/a/deps/.src'', ctx_Bin = ''/a/deps/.bin'',
          ctx_Data = ''/a/deps/.data''\<rparr> = ''localhost'' \<and>
   Host \<lparr>ctx_Type = ''default'', ctx_Src = [], ctx_Bin = [], ctx_Data = []\<rparr> = ''0.0.0.0''"
proof -
  let ?a = "\<lparr>ctx_Type = ''default'', ctx_Src = ''/a/deps/.src'', ctx_Bin = ''/a/deps/.bin'',
             ctx_Data = ''/a/deps/.data''\<rparr>"
  let ?b = "\<lparr>ctx_Type = ''default'', ctx_Src = [], ctx_Bin = [], ctx_Data = []\<rparr>"
  let ?c = "\<lparr>ctx_Type = ''development'', ctx_Src = ''/a/deps/.src'',
             ctx_Bin = ''/a/deps/.bin'', ctx_Data = ''/a/deps/.data''\<rparr>"
  have same: "ctx_Type ?a = ctx_Type ?b" by simp
  have dev: "ctx_Type ?c = ''development''" by simp
  have dflt: "ctx_Type ?b = ''default''" by simp
  from Host_function_of_type [of ?a ?b ?c ?b] same dev dflt show ?thesis by blast
qed

text \<open>
  C8. A lookup by a name that no controller of the service bears fails, and the message
  is the requested name in quotes, the words "controller was not found in", the name of
  the service in quotes and the words "service's configuration": both names occur in it.
  \<open>GetExtension\<close> does the same over the extensions with the word "extension".
\<close>

theorem lookup_of_absent_name:
  "(name \<notin> c_Name ` set (s_Controllers s) \<longrightarrow>
      GetController s name =
        Inl (apostrophe @ name @ apostrophe @ '' controller was not found in '' @
             apostrophe @ s_Name s @ apostrophe @ '' service's configuration'') \<and>
      (\<exists>msg. GetController s name = Inl msg \<and> sublist name msg \<and> sublist (s_Name s) msg)) \<and>
   (name \<notin> e_Name ` set (s_Extensions s) \<longrightarrow>
      GetExtension s name =
        Inl (apostrophe @ name @ apostrophe @ '' extension was not found in '' @
             apostrophe @ s_Name s @ apostrophe @ '' service's configuration'') \<and>
      (\<exists>msg. GetExtension s name = Inl msg \<and> sublist name msg \<and> sublist (s_Name s) msg))"
proof (intro conjI impI)
  assume absent: "name \<notin> c_Name ` set (s_Controllers s)"
  show msg: "GetController s name =
        Inl (apostrophe @ name @ apostrophe @ '' controller was not found in '' @
             apostrophe @ s_Name s @ apostrophe @ '' service's configuration'')"
    by (simp add: GetController_def find_absent [OF absent])
  have "sublist (s_Name s)
          (apostrophe @ name @ apostrophe @ '' controller was not found in '' @
             apostrophe @ s_Name s @ apostrophe @ '' service's configuration'')"
    by (rule sublist_between
          [where ps = "apostrophe @ name @ apostrophe @ '' controller was not found in '' @ apostrophe"
             and ss = "apostrophe @ '' service's configuration''"]) simp
  with msg show "\<exists>msg. GetController s name = Inl msg \<and> sublist name msg \<and> sublist (s_Name s) msg"
    using sublist_mid [of name apostrophe] by blast
next
  assume absent: "name \<notin> e_Name ` set (s_Extensions s)"
  show msg: "GetExtension s name =
        Inl (apostrophe @ name @ apostrophe @ '' extension was not found in '' @
             apostrophe @ s_Name s @ apostrophe @ '' service's configuration'')"
    by (simp add: GetExtension_def find_absent [OF absent])
  have "sublist (s_Name s)
          (apostrophe @ name @ apostrophe @ '' extension was not found in '' @
             apostrophe @ s_Name s @ apostrophe @ '' service's configuration'')"
    by (rule sublist_between
          [where ps = "apostrophe @ name @ apostrophe @ '' extension was not found in '' @ apostrophe"
             and ss = "apostrophe @ '' service's configuration''"]) simp
  with msg show "\<exists>msg. GetExtension s name = Inl msg \<and> sublist name msg \<and> sublist (s_Name s) msg"
    using sublist_mid [of name apostrophe] by blast
qed

theorem lookup_of_absent_name_witness:
  "GetController
     \<lparr>s_Type = ''proxy'', s_Name = ''web'', s_Url = [], s_Instance = ''web 1'',
      s_Controllers = [\<lparr>c_Type = ''Replier'', c_Name = ''source'', c_Instances = []\<rparr>],
      s_Proxies = [], s_Extensions = [\<lparr>e_Name = ''db'', e_Url = [], e_Port = 4010\<rparr>],
      s_Pipelines = []\<rparr> ''missing'' =
     Inl (apostrophe @ ''missing'' @ apostrophe @ '' controller was not found in '' @
          apostrophe @ ''web'' @ apostrophe @ '' service's configuration'') \<and>
   GetExtension
     \<lparr>s_Type = ''proxy'', s_Name = ''web'', s_Url = [], s_Instance = ''web 1'',
      s_Controllers = [\<lparr>c_Type = ''Replier'', c_Name = ''source'', c_Instances = []\<rparr>],
      s_Proxies = [], s_Extensions = [\<lparr>e_Name = ''db'', e_Url = [], e_Port = 4010\<rparr>],
      s_Pipelines = []\<rparr> ''missing'' =
     Inl (apostrophe @ ''missing'' @ apostrophe @ '' extension was not found in '' @
          apostrophe @ ''web'' @ apostrophe @ '' service's configuration'')"
proof -
  let ?s = "\<lparr>s_Type = ''proxy'', s_Name = ''web'', s_Url = [], s_Instance = ''web 1'',
      s_Controllers = [\<lparr>c_Type = ''Replier'', c_Name = ''source'', c_Instances = []\<rparr>],
      s_Proxies = [], s_Extensions = [\<lparr>e_Name = ''db'', e_Url = [], e_Port = 4010\<rparr>],
      s_Pipelines = []\<rparr>"
  have no_controller: "''missing'' \<notin> c_Name ` set (s_Controllers ?s)" by simp
  have no_extension: "''missing'' \<notin> e_Name ` set (s_Extensions ?s)" by simp
  from lookup_of_absent_name [of "''missing''" ?s] no_controller no_extension
  show ?thesis by simp
qed

text \<open>
  C7. When \<open>ValidateServiceType\<close> refuses the declared type of the service (the type is
  outside the recognized set), \<open>Validate\<close> returns an error: the message of the refusal
  after the prefix "identity.ValidateServiceType: ". Whatever the outcome, the service is
  as it was before the call: \<open>Validate\<close> assigns no field.
\<close>

theorem Validate_service_type_refused:
  "(vst (s_Type s) = Some err \<longrightarrow>
      fst (Validate vst vct s) = Some (''identity.ValidateServiceType: '' @ err)) \<and>
   snd (Validate vst vct s) = s"
  by (simp add: Validate_def split: option.splits)

theorem Validate_service_type_refused_witness:
  "fst (Validate (\<lambda>t. if t = ''proxy'' then None else Some (''unknown service type''))
         (\<lambda>t. None)
         \<lparr>s_Type = ''bridge'', s_Name = ''web'', s_Url = [], s_Instance = [],
          s_Controllers = [], s_Proxies = [], s_Extensions = [], s_Pipelines = []\<rparr>) =
     Some (''identity.ValidateServiceType: unknown service type'') \<and>
   snd (Validate (\<lambda>t. if t = ''proxy'' then None else Some (''unknown service type''))
         (\<lambda>t. None)
         \<lparr>s_Type = ''bridge'', s_Name = ''web'', s_Url = [], s_Instance = [],
          s_Controllers = [], s_Proxies = [], s_Extensions = [], s_Pipelines = []\<rparr>) =
     \<lparr>s_Type = ''bridge'', s_Name = ''web'', s_Url = [], s_Instance = [],
      s_Controllers = [], s_Proxies = [], s_Extensions = [], s_Pipelines = []\<rparr>"
  using Validate_service_type_refused
    [of "\<lambda>t. if t = ''proxy'' then None else Some (''unknown service type'')"
        "\<lparr>s_Type = ''bridge'', s_Name = ''web'', s_Url = [], s_Instance = [],
          s_Controllers = [], s_Proxies = [], s_Extensions = [], s_Pipelines = []\<rparr>"
        "''unknown service type''" "\<lambda>t. None"]
  by simp

lemma validate_controllers_first_refused:
  "\<forall>x \<in> set pre. vct (c_Type x) = None \<Longrightarrow> vct (c_Type c) = Some err \<Longrightarrow>
   validate_controllers vct (pre @ c # post) = Some (''controller.ValidateControllerType: '' @ err)"
  by (induction pre) auto

lemma validate_controllers_refuses:
  "c \<in> set cs \<Longrightarrow> vct (c_Type c) \<noteq> None \<Longrightarrow> validate_controllers vct cs \<noteq> None"
  by (induction cs) (auto split: option.splits)

lemma validate_controllers_renamed:
  "validate_controllers vct (map (\<lambda>c. c\<lparr>c_Name := f c\<rparr>) cs) = validate_controllers vct cs"
  by (induction cs) (auto split: option.splits)

text \<open>
  C4, as the code has it. A service with a controller whose discipline type
  \<open>ValidateControllerType\<close> refuses does not pass \<open>Validate\<close>. When the type of the
  service itself is accepted, the message is the prefix "controller.ValidateControllerType: "
  followed by the refusal of the type of the first such controller in declaration order.
  The refusal is computed from the type string, the one argument that
  \<open>ValidateControllerType\<close> receives, and the message is the same whatever the controllers
  are called: giving every controller another name leaves it as it was.
\<close>

theorem Validate_controller_type_refused:
  "(c \<in> set (s_Controllers s) \<and> vct (c_Type c) \<noteq> None \<longrightarrow> fst (Validate vst vct s) \<noteq> None) \<and>
   (vst (s_Type s) = None \<and> s_Controllers s = pre @ c # post \<and>
    (\<forall>x \<in> set pre. vct (c_Type x) = None) \<and> vct (c_Type c) = Some err \<longrightarrow>
      fst (Validate vst vct s) = Some (''controller.ValidateControllerType: '' @ err)) \<and>
   fst (Validate vst vct (s\<lparr>s_Controllers := map (\<lambda>c. c\<lparr>c_Name := f c\<rparr>) (s_Controllers s)\<rparr>)) =
     fst (Validate vst vct s)"
proof (intro conjI impI)
  assume "c \<in> set (s_Controllers s) \<and> vct (c_Type c) \<noteq> None"
  then show "fst (Validate vst vct s) \<noteq> None"
    using validate_controllers_refuses [of c "s_Controllers s" vct]
    by (simp add: Validate_def split: option.splits)
next
  assume "vst (s_Type s) = None \<and> s_Controllers s = pre @ c # post \<and>
    (\<forall>x \<in> set pre. vct (c_Type x) = None) \<and> vct (c_Type c) = Some err"
  then show "fst (Validate vst vct s) = Some (''controller.ValidateControllerType: '' @ err)"
    using validate_controllers_first_refused [of pre vct c err post]
    by (simp add: Validate_def)
next
  show "fst (Validate vst vct (s\<lparr>s_Controllers := map (\<lambda>c. c\<lparr>c_Name := f c\<rparr>) (s_Controllers s)\<rparr>)) =
     fst (Validate vst vct s)"
    by (simp add: Validate_def validate_controllers_renamed split: option.splits)
qed

theorem Validate_controller_type_refused_witness:
  "fst (Validate (\<lambda>t. None) (\<lambda>t. if t = ''Replier'' then None else Some (''unknown controller type''))
         \<lparr>s_Type = ''proxy'', s_Name = ''web'', s_Url = [], s_Instance = [],
          s_Controllers =
            [\<lparr>c_Type = ''Replier'', c_Name = ''source'', c_Instances = []\<rparr>,
             \<lparr>c_Type = ''bogus'', c_Name = ''alpha'', c_Instances = []\<rparr>],
          s_Proxies = [], s_Extensions = [], s_Pipelines = []\<rparr>) =
     Some (''controller.ValidateControllerType: unknown controller type'') \<and>
   fst (Validate (\<lambda>t. Some ''unknown service type'')
         (\<lambda>t. if t = ''Replier'' then None else Some (''unknown controller type''))
         \<lparr>s_Type = ''proxy'', s_Name = ''web'', s_Url = [], s_Instance = [],
          s_Controllers =
            [\<lparr>c_Type = ''Replier'', c_Name = ''source'', c_Instances = []\<rparr>,
             \<lparr>c_Type = ''bogus'', c_Name = ''alpha'', c_Instances = []\<rparr>],
          s_Proxies = [], s_Extensions = [], s_Pipelines = []\<rparr>) \<noteq> None"
proof -
  let ?vct = "\<lambda>t. if t = ''Replier'' then None else Some (''unknown controller type'')"
  let ?src = "\<lparr>c_Type = ''Replier'', c_Name = ''source'', c_Instances = []\<rparr>"
  let ?bad = "\<lparr>c_Type = ''bogus'', c_Name = ''alpha'', c_Instances = []\<rparr>"
  let ?s = "\<lparr>s_Type = ''proxy'', s_Name = ''web'', s_Url = [], s_Instance = [],
          s_Controllers = [?src, ?bad], s_Proxies = [], s_Extensions = [], s_Pipelines = []\<rparr>"
  have hyp: "(\<lambda>t. None) (s_Type ?s) = None \<and> s_Controllers ?s = [?src] @ ?bad # [] \<and>
    (\<forall>x \<in> set [?src]. ?vct (c_Type x) = None) \<and>
    ?vct (c_Type ?bad) = Some (''unknown controller type'')"
    by simp
  have "fst (Validate (\<lambda>t. None) ?vct ?s) =
          Some (''controller.ValidateControllerType: '' @ ''unknown controller type'')"
    by (rule Validate_controller_type_refused
          [of ?bad ?s ?vct "\<lambda>t. None" "[?src]" "[]" "''unknown controller type''",
           THEN conjunct2, THEN conjunct1, THEN mp, OF hyp])
  moreover have "fst (Validate (\<lambda>t. Some ''unknown service type'') ?vct ?s) \<noteq> None"
  proof -
    have "?bad \<in> set (s_Controllers ?s) \<and> ?vct (c_Type ?bad) \<noteq> None" by simp
    then show ?thesis
      by (rule Validate_controller_type_refused
            [of ?bad ?s ?vct, THEN conjunct1, THEN mp])
  qed
  ultimately show ?thesis by simp
qed

text \<open>
  C4 as stated fails: two services that differ in the name of the refused controller
  only ("alpha" in one, "beta" in the other) get the same result from \<open>Validate\<close>, for
  every pair of validators, so the message names neither controller.
\<close>

theorem Validate_message_counterexample:
  "\<forall>vst vct.
     fst (Validate vst vct
       \<lparr>s_Type = ''proxy'', s_Name = ''web'', s_Url = [], s_Instance = [],
        s_Controllers = [\<lparr>c_Type = ''bogus'', c_Name = ''alpha'', c_Instances = []\<rparr>],
        s_Proxies = [], s_Extensions = [], s_Pipelines = []\<rparr>) =
     fst (Validate vst vct
       \<lparr>s_Type = ''proxy'', s_Name = ''web'', s_Url = [], s_Instance = [],
        s_Controllers = [\<lparr>c_Type = ''bogus'', c_Name = ''beta'', c_Instances = []\<rparr>],
        s_Proxies = [], s_Extensions = [], s_Pipelines = []\<rparr>)"
  by (simp add: Validate_def split: option.splits)

section \<open>Properties of the proxy orchestrator\<close>


lemma find_source_destination_append:
  "find_source_destination (xs @ ys) found =
     find_source_destination ys (find_source_destination xs found)"
  by (induction xs found rule: find_source_destination.induct) auto


lemma names_differ: "SourceName \<noteq> DestinationName"
  by (simp add: SourceName_def DestinationName_def)

lemma prepareConfiguration_empty_type:
  assumes "s_Type (cfg_Service (px_configuration service)) = []"
    and "px_source service = Some source"
    and "GetCurrentPath env = Inr exePath"
    and "cfg_free_ports (px_configuration service) = p1 # p2 # rest"
  shows "prepareConfiguration env service =
    (Done, service\<lparr>px_configuration := (px_configuration service)
       \<lparr>cfg_free_ports := rest,
        cfg_Service :=
          \<lparr>s_Type = ProxyType env, s_Name = [], s_Url = exePath,
           s_Instance = cfg_Name (px_configuration service) @ '' 1'',
           s_Controllers =
             [\<lparr>c_Type = src_ControllerType source, c_Name = SourceName,
               c_Instances = [\<lparr>ci_Name = SourceName, ci_Instance = SourceName @ ''1'',
                                ci_Port = word_of_int p1\<rparr>]\<rparr>,
              \<lparr>c_Type = requiredDestination (px_Controller service), c_Name = DestinationName,
               c_Instances = [\<lparr>ci_Name = DestinationName, ci_Instance = DestinationName @ ''1'',
                                ci_Port = word_of_int p2\<rparr>]\<rparr>],
           s_Proxies = [], s_Extensions = [], s_Pipelines = []\<rparr>\<rparr>\<rparr>)"
  using assms names_differ
  by (simp add: prepareConfiguration_def prepare_service_def prepare_controller_def
      prepare_instances_def GetFreePort_def SetController_def zero_controller_def Let_def)

lemma find_source_destination_last_source:
  "c_Name sc = SourceName \<Longrightarrow> SourceName \<notin> c_Name ` set post \<Longrightarrow>
   fst (find_source_destination (pre @ sc # post) found) = sc"
proof -
  have keep: "SourceName \<notin> c_Name ` set cs \<Longrightarrow> fst (find_source_destination cs (a, b)) = a"
    for cs a b
    by (induction cs arbitrary: a b) auto
  assume "c_Name sc = SourceName" and "SourceName \<notin> c_Name ` set post"
  then show ?thesis
    by (cases "find_source_destination pre found")
       (simp add: find_source_destination_append keep)
qed



lemma registered_configuration:
  "px_configuration (registerSource service) = px_configuration service"
  "px_configuration (registerDestination service) = px_configuration service"
  by (simp_all add: registerSource_def registerDestination_def split: option.splits)

lemma Prepare_Done:
  assumes "prepareConfiguration env service = (Done, service')"
    and "px_source service = Some source"
    and "requiredDestination (px_Controller service) \<noteq> UnknownType env"
  shows "fst (Prepare env service) = Done"
    and "px_configuration (snd (Prepare env service)) = px_configuration service'"
  using assms by (simp_all add: Prepare_def Let_def registered_configuration)


text \<open>
  C10. With an empty declared type, \<open>prepareConfiguration\<close> goes on with a service
  configuration made from a struct literal that sets the type (the proxy type), the url
  (the path of the executable) and the instance (the name of the configuration and " 1")
  and nothing else. The scan for the source and the destination runs over its empty
  controller list, so both are synthesized, and the stored configuration holds these two
  controllers only: the declared controllers, proxies, extensions and pipelines are not
  in the result, whatever they were. (The executable path is available and the
  allocator has two ports to give.)
\<close>

theorem empty_type_discards_declared:
  assumes "s_Type (cfg_Service (px_configuration service)) = []"
    and "px_source service = Some source"
    and "GetCurrentPath env = Inr exePath"
    and "cfg_free_ports (px_configuration service) = p1 # p2 # rest"
  shows "prepare_service env (px_configuration service) =
      Inr \<lparr>s_Type = ProxyType env, s_Name = [], s_Url = exePath,
           s_Instance = cfg_Name (px_configuration service) @ '' 1'', s_Controllers = [],
           s_Proxies = [], s_Extensions = [], s_Pipelines = []\<rparr> \<and>
    prepareConfiguration env service =
    (Done, service\<lparr>px_configuration := (px_configuration service)
       \<lparr>cfg_free_ports := rest,
        cfg_Service :=
          \<lparr>s_Type = ProxyType env, s_Name = [], s_Url = exePath,
           s_Instance = cfg_Name (px_configuration service) @ '' 1'',
           s_Controllers =
             [\<lparr>c_Type = src_ControllerType source, c_Name = SourceName,
               c_Instances = [\<lparr>ci_Name = SourceName, ci_Instance = SourceName @ ''1'',
                                ci_Port = word_of_int p1\<rparr>]\<rparr>,
              \<lparr>c_Type = requiredDestination (px_Controller service), c_Name = DestinationName,
               c_Instances = [\<lparr>ci_Name = DestinationName, ci_Instance = DestinationName @ ''1'',
                                ci_Port = word_of_int p2\<rparr>]\<rparr>],
           s_Proxies = [], s_Extensions = [], s_Pipelines = []\<rparr>\<rparr>\<rparr>)"
  using assms prepareConfiguration_empty_type [OF assms]
  by (simp add: prepare_service_def)

theorem empty_type_discards_declared_witness:
  "cfg_Service (px_configuration (snd (prepareConfiguration example_env
     (example_proxy
        (example_service []
           [\<lparr>c_Type = ''Replier'', c_Name = ''source'',
             c_Instances = [\<lparr>ci_Name = ''source'', ci_Instance = ''source1'', ci_Port = 4000\<rparr>]\<rparr>,
            \<lparr>c_Type = ''Pusher'', c_Name = ''metrics'', c_Instances = []\<rparr>])
        [4001, 4002, 4003])))) =
   \<lparr>s_Type = ''Proxy'', s_Name = [], s_Url = ''/opt/web'', s_Instance = ''web 1'',
    s_Controllers =
      [\<lparr>c_Type = ''Replier'', c_Name = ''source'',
        c_Instances = [\<lparr>ci_Name = ''source'', ci_Instance = ''source1'', ci_Port = 4001\<rparr>]\<rparr>,
       \<lparr>c_Type = ''Replier'', c_Name = ''destination'',
        c_Instances = [\<lparr>ci_Name = ''destination'', ci_Instance = ''destination1'',
                         ci_Port = 4002\<rparr>]\<rparr>],
    s_Proxies = [], s_Extensions = [], s_Pipelines = []\<rparr>"
proof -
  let ?service = "example_proxy
        (example_service []
           [\<lparr>c_Type = ''Replier'', c_Name = ''source'',
             c_Instances = [\<lparr>ci_Name = ''source'', ci_Instance = ''source1'', ci_Port = 4000\<rparr>]\<rparr>,
            \<lparr>c_Type = ''Pusher'', c_Name = ''metrics'', c_Instances = []\<rparr>])
        [4001, 4002, 4003]"
  have a: "s_Type (cfg_Service (px_configuration ?service)) = []"
    by (simp add: example_proxy_def example_service_def)
  have b: "px_source ?service = Some \<lparr>src_ControllerType = ''Replier'', src_AddConfig = [],
                        src_RequireExtension = [], src_AddExtensionConfig = []\<rparr>"
    by (simp add: example_proxy_def)
  have c: "GetCurrentPath example_env = Inr ''/opt/web''"
    by (simp add: example_env_def)
  have d: "cfg_free_ports (px_configuration ?service) = 4001 # 4002 # [4003]"
    by (simp add: example_proxy_def)
  from empty_type_discards_declared [OF a b c d]
  show ?thesis
    by (simp add: example_proxy_def example_env_def SourceName_def DestinationName_def)
qed

text \<open>
  C3. With an empty declared type the check of the service type ends without an error
  and leaves a service of the proxy type whose instance is the name of the configuration
  followed by " 1"; \<open>Prepare\<close> then returns no error and stores this type and instance
  (the executable path is available, a source is attached, a destination type is
  required and the allocator has two ports to give). With a declared type that is
  neither empty nor the proxy type, \<open>prepareConfiguration\<close> returns the error "service
  type is overwritten. It's not proxy its '<type>'", and \<open>Prepare\<close> returns an error
  and leaves the proxy as it was: the outcome is a returned error, not a panic.
\<close>

theorem service_type_completion:
  "(s_Type (cfg_Service (px_configuration service)) = [] \<and> GetCurrentPath env = Inr exePath \<longrightarrow>
      prepare_service env (px_configuration service) =
        Inr \<lparr>s_Type = ProxyType env, s_Name = [], s_Url = exePath,
             s_Instance = cfg_Name (px_configuration service) @ '' 1'', s_Controllers = [],
             s_Proxies = [], s_Extensions = [], s_Pipelines = []\<rparr>) \<and>
   (s_Type (cfg_Service (px_configuration service)) = [] \<and> GetCurrentPath env = Inr exePath \<and>
    px_source service = Some source \<and>
    requiredDestination (px_Controller service) \<noteq> UnknownType env \<and>
    cfg_free_ports (px_configuration service) = p1 # p2 # rest \<longrightarrow>
      fst (Prepare env service) = Done \<and>
      s_Type (cfg_Service (px_configuration (snd (Prepare env service)))) = ProxyType env \<and>
      s_Instance (cfg_Service (px_configuration (snd (Prepare env service)))) =
        cfg_Name (px_configuration service) @ '' 1'') \<and>
   (s_Type (cfg_Service (px_configuration service)) \<noteq> [] \<and>
    s_Type (cfg_Service (px_configuration service)) \<noteq> ProxyType env \<longrightarrow>
      prepareConfiguration env service =
        (Returned (''service type is overwritten. It's not proxy its '' @ apostrophe @
                   s_Type (cfg_Service (px_configuration service)) @ apostrophe),
         service) \<and>
      (\<exists>err. Prepare env service = (Returned err, service)))"
proof (intro conjI impI)
  assume "s_Type (cfg_Service (px_configuration service)) = [] \<and> GetCurrentPath env = Inr exePath"
  then show "prepare_service env (px_configuration service) =
        Inr \<lparr>s_Type = ProxyType env, s_Name = [], s_Url = exePath,
             s_Instance = cfg_Name (px_configuration service) @ '' 1'', s_Controllers = [],
             s_Proxies = [], s_Extensions = [], s_Pipelines = []\<rparr>"
    by (simp add: prepare_service_def)
next
  assume h: "s_Type (cfg_Service (px_configuration service)) = [] \<and>
    GetCurrentPath env = Inr exePath \<and> px_source service = Some source \<and>
    requiredDestination (px_Controller service) \<noteq> UnknownType env \<and>
    cfg_free_ports (px_configuration service) = p1 # p2 # rest"
  then have run: "prepareConfiguration env service =
    (Done, service\<lparr>px_configuration := (px_configuration service)
       \<lparr>cfg_free_ports := rest,
        cfg_Service :=
          \<lparr>s_Type = ProxyType env, s_Name = [], s_Url = exePath,
           s_Instance = cfg_Name (px_configuration service) @ '' 1'',
           s_Controllers =
             [\<lparr>c_Type = src_ControllerType source, c_Name = SourceName,
               c_Instances = [\<lparr>ci_Name = SourceName, ci_Instance = SourceName @ ''1'',
                                ci_Port = word_of_int p1\<rparr>]\<rparr>,
              \<lparr>c_Type = requiredDestination (px_Controller service), c_Name = DestinationName,
               c_Instances = [\<lparr>ci_Name = DestinationName, ci_Instance = DestinationName @ ''1'',
                                ci_Port = word_of_int p2\<rparr>]\<rparr>],
           s_Proxies = [], s_Extensions = [], s_Pipelines = []\<rparr>\<rparr>\<rparr>)"
    by (intro prepareConfiguration_empty_type) simp_all
  from h have src: "px_source service = Some source"
    and dst: "requiredDestination (px_Controller service) \<noteq> UnknownType env" by simp_all
  show "fst (Prepare env service) = Done"
    by (rule Prepare_Done(1) [OF run src dst])
  show "s_Type (cfg_Service (px_configuration (snd (Prepare env service)))) = ProxyType env"
    by (simp add: Prepare_Done(2) [OF run src dst])
  show "s_Instance (cfg_Service (px_configuration (snd (Prepare env service)))) =
        cfg_Name (px_configuration service) @ '' 1''"
    by (simp add: Prepare_Done(2) [OF run src dst])
next
  assume h: "s_Type (cfg_Service (px_configuration service)) \<noteq> [] \<and>
    s_Type (cfg_Service (px_configuration service)) \<noteq> ProxyType env"
  then show run: "prepareConfiguration env service =
        (Returned (''service type is overwritten. It's not proxy its '' @ apostrophe @
                   s_Type (cfg_Service (px_configuration service)) @ apostrophe),
         service)"
    by (simp add: prepareConfiguration_def prepare_service_def)
  then show "\<exists>err. Prepare env service = (Returned err, service)"
    by (simp add: Prepare_def)
qed

theorem service_type_completion_witness:
  "fst (Prepare example_env (example_proxy (example_service [] []) [4001, 4002])) = Done \<and>
   s_Type (cfg_Service (px_configuration
     (snd (Prepare example_env (example_proxy (example_service [] []) [4001, 4002]))))) = ''Proxy'' \<and>
   s_Instance (cfg_Service (px_configuration
     (snd (Prepare example_env (example_proxy (example_service [] []) [4001, 4002]))))) = ''web 1'' \<and>
   prepareConfiguration example_env (example_proxy (example_service ''Extension'' []) [4001, 4002]) =
     (Returned (''service type is overwritten. It's not proxy its '' @ apostrophe @
                ''Extension'' @ apostrophe),
      example_proxy (example_service ''Extension'' []) [4001, 4002])"
proof -
  let ?empty = "example_proxy (example_service [] []) [4001, 4002]"
  let ?other = "example_proxy (example_service ''Extension'' []) [4001, 4002]"
  have a: "s_Type (cfg_Service (px_configuration ?empty)) = [] \<and>
    GetCurrentPath example_env = Inr ''/opt/web'' \<and>
    px_source ?empty = Some \<lparr>src_ControllerType = ''Replier'', src_AddConfig = [],
                        src_RequireExtension = [], src_AddExtensionConfig = []\<rparr> \<and>
    requiredDestination (px_Controller ?empty) \<noteq> UnknownType example_env \<and>
    cfg_free_ports (px_configuration ?empty) = 4001 # 4002 # []"
    by (simp add: example_proxy_def example_service_def example_env_def)
  have b: "s_Type (cfg_Service (px_configuration ?other)) \<noteq> [] \<and>
    s_Type (cfg_Service (px_configuration ?other)) \<noteq> ProxyType example_env"
    by (simp add: example_proxy_def example_service_def example_env_def)
  have first: "fst (Prepare example_env ?empty) = Done \<and>
      s_Type (cfg_Service (px_configuration (snd (Prepare example_env ?empty)))) =
        ProxyType example_env \<and>
      s_Instance (cfg_Service (px_configuration (snd (Prepare example_env ?empty)))) =
        cfg_Name (px_configuration ?empty) @ '' 1''"
    by (rule service_type_completion [THEN conjunct2, THEN conjunct1, THEN mp, OF a])
  have second: "prepareConfiguration example_env ?other =
        (Returned (''service type is overwritten. It's not proxy its '' @ apostrophe @
                   s_Type (cfg_Service (px_configuration ?other)) @ apostrophe),
         ?other)"
    using service_type_completion [of ?other example_env, THEN conjunct2, THEN conjunct2] b
    by blast
  from first second show ?thesis
    by (simp add: example_proxy_def example_service_def example_env_def)
qed

lemma prepareConfiguration_zero_port:
  assumes "px_source service = Some source"
    and "s_Type (cfg_Service (px_configuration service)) \<noteq> []"
    and "s_Controllers (cfg_Service (px_configuration service)) = pre @ sc # post"
    and "c_Name sc = SourceName" and "SourceName \<notin> c_Name ` set post"
    and "c_Type sc \<noteq> []" and "c_Instances sc = inst # insts" and "ci_Port inst = 0"
  shows "\<exists>err. prepareConfiguration env service = (Returned err, service)"
proof -
  obtain dc where found:
    "find_source_destination (pre @ sc # post) (zero_controller, zero_controller) = (sc, dc)"
    using find_source_destination_last_source [OF assms(4,5), of pre "(zero_controller, zero_controller)"]
    by (cases "find_source_destination (pre @ sc # post) (zero_controller, zero_controller)") simp
  have zero: "prepare_instances config sc =
      (Inl (Returned ''the port should not be 0 in the source''), config)" for config
    using assms(7,8) by (simp add: prepare_instances_def)
  have same: "service\<lparr>px_configuration := px_configuration service\<rparr> = service"
    by simp
  show ?thesis
    using assms(1,2,3,6)
    by (auto simp: prepareConfiguration_def prepare_service_def prepare_controller_def
        Let_def found zero same split: sum.splits prod.splits)
qed

text \<open>
  C2, as the code has it. Let the declared type of the service be non-empty, and let
  the controller named "source" that the scan keeps (the last one declared under the
  name) have a non-empty discipline type and a first instance on port 0. Then \<open>Prepare\<close>
  returns an error and the proxy is as it was before the call: no controller and no
  instance has been stored for the destination, and no port has been taken from the
  allocator.
\<close>

theorem zero_source_port_refused:
  assumes "s_Type (cfg_Service (px_configuration service)) \<noteq> []"
    and "s_Controllers (cfg_Service (px_configuration service)) = pre @ sc # post"
    and "c_Name sc = SourceName" and "SourceName \<notin> c_Name ` set post"
    and "c_Type sc \<noteq> []" and "c_Instances sc = inst # insts" and "ci_Port inst = 0"
  shows "\<exists>err. Prepare env service = (Returned err, service)"
proof (cases "px_source service")
  case None
  then show ?thesis by (simp add: Prepare_def)
next
  case (Some source)
  from prepareConfiguration_zero_port [OF Some assms, of env]
  obtain err where "prepareConfiguration env service = (Returned err, service)" ..
  with Some show ?thesis by (simp add: Prepare_def)
qed

theorem zero_source_port_refused_witness:
  "Prepare example_env
     (example_proxy
        (example_service ''Proxy''
           [\<lparr>c_Type = ''Replier'', c_Name = ''source'',
             c_Instances = [\<lparr>ci_Name = ''source'', ci_Instance = ''source1'', ci_Port = 0\<rparr>]\<rparr>])
        [4001, 4002]) =
   (Returned ''prepareConfiguration: the port should not be 0 in the source'',
    example_proxy
        (example_service ''Proxy''
           [\<lparr>c_Type = ''Replier'', c_Name = ''source'',
             c_Instances = [\<lparr>ci_Name = ''source'', ci_Instance = ''source1'', ci_Port = 0\<rparr>]\<rparr>])
        [4001, 4002])"
proof -
  let ?inst = "\<lparr>ci_Name = ''source'', ci_Instance = ''source1'', ci_Port = 0\<rparr>"
  let ?sc = "\<lparr>c_Type = ''Replier'', c_Name = ''source'', c_Instances = [?inst]\<rparr>"
  let ?service = "example_proxy (example_service ''Proxy'' [?sc]) [4001, 4002]"
  have a: "s_Type (cfg_Service (px_configuration ?service)) \<noteq> []"
    by (simp add: example_proxy_def example_service_def)
  have b: "s_Controllers (cfg_Service (px_configuration ?service)) = [] @ ?sc # []"
    by (simp add: example_proxy_def example_service_def)
  have c: "c_Name ?sc = SourceName" by (simp add: SourceName_def)
  have d: "SourceName \<notin> c_Name ` set []" by simp
  have e: "c_Type ?sc \<noteq> []" by simp
  have f: "c_Instances ?sc = ?inst # []" by simp
  have g: "ci_Port ?inst = 0" by simp
  from zero_source_port_refused [OF a b c d e f g, of example_env]
  obtain err where run: "Prepare example_env ?service = (Returned err, ?service)" ..
  have "fst (Prepare example_env ?service) =
      Returned ''prepareConfiguration: the port should not be 0 in the source''"
    by (simp add: Prepare_def prepareConfiguration_def prepare_service_def
        prepare_controller_def prepare_instances_def zero_controller_def
        example_proxy_def example_service_def example_env_def
        SourceName_def DestinationName_def Let_def)
  with run show ?thesis by simp
qed

text \<open>
  C2 as stated fails where the declared type of the service is empty: the declared
  source, port 0 and all, is dropped with the rest of the declared configuration,
  \<open>Prepare\<close> returns no error, and the two ports that the allocator had are taken: one
  for a synthesized source, one for a synthesized destination.
\<close>

theorem zero_source_port_counterexample:
  "fst (Prepare example_env
     (example_proxy
        (example_service []
           [\<lparr>c_Type = ''Replier'', c_Name = ''source'',
             c_Instances = [\<lparr>ci_Name = ''source'', ci_Instance = ''source1'', ci_Port = 0\<rparr>]\<rparr>])
        [4001, 4002])) = Done \<and>
   cfg_free_ports (px_configuration (snd (Prepare example_env
     (example_proxy
        (example_service []
           [\<lparr>c_Type = ''Replier'', c_Name = ''source'',
             c_Instances = [\<lparr>ci_Name = ''source'', ci_Instance = ''source1'', ci_Port = 0\<rparr>]\<rparr>])
        [4001, 4002])))) = []"
  by (simp add: Prepare_def prepareConfiguration_def prepare_service_def
      prepare_controller_def prepare_instances_def GetFreePort_def
      registered_configuration
      zero_controller_def example_proxy_def example_service_def example_env_def
      SourceName_def DestinationName_def Let_def)




section \<open>Properties of the producer loop\<close>

lemma categorize_failures:
  "categorize deps sm (map FetchFails errs @ rounds) =
     (concat (map (fetch_failed sm) errs) @ fst (categorize deps sm rounds),
      snd (categorize deps sm rounds))"
  by (induction errs) (auto split: prod.splits)

lemma count_fetch_failed:
  "length (filter is_fetch (fetch_failed sm err)) = 1"
  "filter is_send (fetch_failed sm err) = []"
  "filter is_panic (fetch_failed sm err) = []"
  "filter (\<lambda>e. e = Sleep 10) (fetch_failed sm err) = [Sleep 10]"
  by (simp_all add: fetch_failed_def)

text \<open>
  C6. Against a fetch that fails twice and then returns logs, with a send that succeeds,
  the loop makes three fetches, sleeps ten seconds after each of the two failures, sends
  one request after the third fetch, sleeps one second and is back at the fetch. A fetch
  failure is never escalated: against any number of failing fetches the run has no
  \<open>panic\<close> and the loop is still polling. When \<open>SendMessage\<close> returns an error after a
  fetch, the loop unlocks and calls \<open>panic\<close> with that error.
\<close>

theorem producer_loop_retries:
  "categorize deps sm [FetchFails e1, FetchFails e2, Fetched new_logs None] =
     (fetch_failed sm e1 @ fetch_failed sm e2 @
      [RemoteLogFilter (sm_CategorizedBlockTimestamp sm) [sm_Address sm],
       Lock, SendMessage (snd (push_request deps sm new_logs)), Unlock, Sleep 1],
      Polling (fst (push_request deps sm new_logs))) \<and>
   length (filter is_fetch
     (fst (categorize deps sm [FetchFails e1, FetchFails e2, Fetched new_logs None]))) = 3 \<and>
   length (filter is_send
     (fst (categorize deps sm [FetchFails e1, FetchFails e2, Fetched new_logs None]))) = 1 \<and>
   filter (\<lambda>e. e = Sleep 10)
     (fst (categorize deps sm [FetchFails e1, FetchFails e2, Fetched new_logs None])) =
     [Sleep 10, Sleep 10] \<and>
   categorize deps sm (map FetchFails errs) =
     (concat (map (fetch_failed sm) errs), Polling sm) \<and>
   filter is_panic (fst (categorize deps sm (map FetchFails errs))) = [] \<and>
   categorize deps sm (Fetched new_logs (Some err) # rounds) =
     ([RemoteLogFilter (sm_CategorizedBlockTimestamp sm) [sm_Address sm],
       Lock, SendMessage (snd (push_request deps sm new_logs)), Unlock, Panic err],
      Crashed err)"
proof -
  have run: "categorize deps sm [FetchFails e1, FetchFails e2, Fetched new_logs None] =
     (fetch_failed sm e1 @ fetch_failed sm e2 @
      [RemoteLogFilter (sm_CategorizedBlockTimestamp sm) [sm_Address sm],
       Lock, SendMessage (snd (push_request deps sm new_logs)), Unlock, Sleep 1],
      Polling (fst (push_request deps sm new_logs)))"
    by (simp split: prod.splits)
  have failures: "categorize deps sm (map FetchFails errs) =
     (concat (map (fetch_failed sm) errs), Polling sm)"
    using categorize_failures [of deps sm errs "[]"] by simp
  have quiet: "filter is_panic (concat (map (fetch_failed sm) errs)) = []"
    by (induction errs) (simp_all add: count_fetch_failed)
  have crash: "categorize deps sm (Fetched new_logs (Some err) # rounds) =
     ([RemoteLogFilter (sm_CategorizedBlockTimestamp sm) [sm_Address sm],
       Lock, SendMessage (snd (push_request deps sm new_logs)), Unlock, Panic err],
      Crashed err)"
    by (simp split: prod.splits)
  show ?thesis
    unfolding run failures crash by (simp add: count_fetch_failed quiet)
qed

theorem producer_loop_retries_witness:
  "categorize
     \<lparr>RecentBlock = (\<lambda>new_logs. new_logs),
      SetBlockParameter = (\<lambda>sm block_number block_timestamp.
        sm\<lparr>sm_CategorizedBlockTimestamp := block_timestamp\<rparr>),
      ToString = (\<lambda>push. ''request'')\<rparr>
     \<lparr>sm_NetworkId = ''imx'', sm_Address = ''0xabc'', sm_CategorizedBlockTimestamp = 1600\<rparr>
     [FetchFails ''timeout'', FetchFails ''timeout'', Fetched (7, 1700) None] =
   (fetch_failed
      \<lparr>sm_NetworkId = ''imx'', sm_Address = ''0xabc'', sm_CategorizedBlockTimestamp = 1600\<rparr>
      ''timeout'' @
    fetch_failed
      \<lparr>sm_NetworkId = ''imx'', sm_Address = ''0xabc'', sm_CategorizedBlockTimestamp = 1600\<rparr>
      ''timeout'' @
    [RemoteLogFilter 1600 [''0xabc''], Lock, SendMessage ''request'', Unlock, Sleep 1],
    Polling \<lparr>sm_NetworkId = ''imx'', sm_Address = ''0xabc'', sm_CategorizedBlockTimestamp = 1700\<rparr>)"
  using producer_loop_retries
    [of "\<lparr>RecentBlock = (\<lambda>new_logs. new_logs),
          SetBlockParameter = (\<lambda>sm block_number block_timestamp.
            sm\<lparr>sm_CategorizedBlockTimestamp := block_timestamp\<rparr>),
          ToString = (\<lambda>push. ''request'')\<rparr>"
        "\<lparr>sm_NetworkId = ''imx'', sm_Address = ''0xabc'', sm_CategorizedBlockTimestamp = 1600\<rparr>"
        "''timeout''" "''timeout''" "(7, 1700)" "[]" "''closed''" "[]"]
  by (simp add: push_request_def)

text \<open>
  C5 does not hold on the code. Two goroutines start; the first fetches, locks its
  mutex and enters \<open>SendMessage\<close>; the second fetches, locks its own mutex, which nobody
  else holds, and enters \<open>SendMessage\<close> too: two sends on the shared socket at once.
\<close>

theorem categorize_sends_overlap:
  "run (start 2) [(0, FetchOk), (0, Go), (0, Go), (1, FetchOk), (1, Go), (1, Go)] =
     Some [\<lparr>g_point = InSend, g_mu = True\<rparr>, \<lparr>g_point = InSend, g_mu = True\<rparr>] \<and>
   senders [\<lparr>g_point = InSend, g_mu = True\<rparr>, \<lparr>g_point = InSend, g_mu = True\<rparr>] = 2"
  by (simp add: start_def step_def advance_def senders_def numeral_2_eq_2)

end
